theory Spec2Isabelle
  imports Complex_Main "HOL-Library.Word"
begin

section \<open>Regions and the overlap ratio\<close>

text \<open>
  The body detector reports each person as a \<open>HumanBodyInfo\<close>; a client names a
  region as a \<open>sensor_msgs::msg::RegionOfInterest\<close>.  \<open>GetIOU\<close> passes one field of
  each to \<open>std::min\<close> and \<open>std::max\<close>, whose two arguments have one deduced
  type, so the four coordinates of a \<open>HumanBodyInfo\<close> have the type of the region's:
  unsigned 32-bit integers.  All arithmetic on them wraps modulo \<open>2 ^ 32\<close>.
\<close>

record HumanBodyInfo =
  left :: "32 word"
  top :: "32 word"
  width :: "32 word"
  height :: "32 word"

record RegionOfInterest =
  x_offset :: "32 word"
  y_offset :: "32 word"
  roi_height :: "32 word"
  roi_width :: "32 word"

text \<open>
  A \<open>double\<close> as far as this program needs one: the quotient of two integers that
  a \<open>double\<close> holds exactly, compared with \<open>>\<close>.  A finite value is kept as the
  exact quotient; a division by zero gives an infinity or NaN as IEEE 754 says, and
  every comparison with NaN is false.  The rounding of the quotient is left out: the
  values 0, 1/4, 1/2 and 1 are exact in a \<open>double\<close>, and rounding is monotone, so a
  comparison with 0.5 comes out the same.
\<close>

datatype dbl = Finite real | PosInf | NegInf | NaN

definition dbl_div :: "int \<Rightarrow> nat \<Rightarrow> dbl" where
  "dbl_div n d =
     (if d \<noteq> 0 then Finite (real_of_int n / real d)
      else if 0 < n then PosInf
      else if n < 0 then NegInf
      else NaN)"

fun dbl_gt :: "dbl \<Rightarrow> dbl \<Rightarrow> bool" where
  "dbl_gt NaN _ = False"
| "dbl_gt _ NaN = False"
| "dbl_gt (Finite a) (Finite b) = (b < a)"
| "dbl_gt PosInf PosInf = False"
| "dbl_gt PosInf _ = True"
| "dbl_gt _ PosInf = False"
| "dbl_gt NegInf _ = False"
| "dbl_gt (Finite a) NegInf = True"

text \<open>
  \<open>GetIOU\<close>.  The differences \<open>min \<dots> - max \<dots>\<close> are unsigned, so is the
  \<open>(uint32_t)0\<close> they are compared with, and \<open>std::max\<close> of an unsigned value and
  zero is that value.  The result is stored in an \<open>int\<close>, which reads the same 32
  bits as two's complement (\<open>sint\<close>).  \<open>w * h\<close> is a product of two \<open>int\<close>s; in
  the denominator it is converted back to unsigned, where the same 32 bits are read
  with \<open>unat\<close>.
\<close>

definition GetIOU :: "HumanBodyInfo \<Rightarrow> RegionOfInterest \<Rightarrow> dbl" where
  "GetIOU b1 b2 =
     (let w = max (min (left b1 + width b1) (x_offset b2 + roi_width b2)
                   - max (left b1) (x_offset b2)) (0 :: 32 word);
          h = max (min (top b1 + height b1) (y_offset b2 + roi_height b2)
                   - max (top b1) (y_offset b2)) (0 :: 32 word)
      in dbl_div (sint (w * h))
           (unat (width b1 * height b1 + roi_width b2 * roi_height b2 - w * h)))"

definition mk_body :: "nat \<Rightarrow> nat \<Rightarrow> nat \<Rightarrow> nat \<Rightarrow> HumanBodyInfo" where
  "mk_body l t w h = \<lparr>left = of_nat l, top = of_nat t, width = of_nat w, height = of_nat h\<rparr>"

definition mk_roi :: "nat \<Rightarrow> nat \<Rightarrow> nat \<Rightarrow> nat \<Rightarrow> RegionOfInterest" where
  "mk_roi x y w h =
     \<lparr>x_offset = of_nat x, y_offset = of_nat y, roi_height = of_nat h, roi_width = of_nat w\<rparr>"

section \<open>Images, rectangles and the published messages\<close>

text \<open>
  An image (\<open>cv::Mat\<close>) is opaque to the manager: it is carried around and handed to
  the inference engines.  \<open>Mat n\<close> is the image with content \<open>n\<close>; \<open>Mat 0\<close>
  stands for the empty matrix a default-constructed \<open>cv::Mat\<close> is.  A header is its
  time stamp.  \<open>cv::Rect\<close> has four \<open>int\<close> fields.
\<close>

datatype Mat = Mat nat

type_synonym Header = nat

record StampedImage =
  header :: Header
  img :: Mat

record Rect =
  rect_x :: int
  rect_y :: int
  rect_width :: int
  rect_height :: int

definition Rect0 :: Rect where
  "Rect0 = \<lparr>rect_x = 0, rect_y = 0, rect_width = 0, rect_height = 0\<rparr>"

definition ROI0 :: RegionOfInterest where
  "ROI0 = \<lparr>x_offset = 0, y_offset = 0, roi_height = 0, roi_width = 0\<rparr>"

text \<open>The two \<open>Convert\<close> overloads between \<open>RegionOfInterest\<close> and \<open>cv::Rect\<close>.\<close>

definition Convert_roi :: "RegionOfInterest \<Rightarrow> Rect" where
  "Convert_roi roi =
     \<lparr>rect_x = sint (x_offset roi), rect_y = sint (y_offset roi),
      rect_width = sint (roi_width roi), rect_height = sint (roi_height roi)\<rparr>"

definition Convert_rect :: "Rect \<Rightarrow> RegionOfInterest" where
  "Convert_rect bbox =
     \<lparr>x_offset = word_of_int (rect_x bbox), y_offset = word_of_int (rect_y bbox),
      roi_height = word_of_int (rect_height bbox), roi_width = word_of_int (rect_width bbox)\<rparr>"

record GestureT =
  gesture_roi :: RegionOfInterest
  cls :: int

record KeypointT =
  kp_x :: real
  kp_y :: real

record BodyT =
  body_roi :: RegionOfInterest
  gesture :: GestureT
  keypoints :: "KeypointT list"
  reid :: string

definition BodyT0 :: BodyT where
  "BodyT0 = \<lparr>body_roi = ROI0, gesture = \<lparr>gesture_roi = ROI0, cls = 0\<rparr>, keypoints = [], reid = []\<rparr>"

record BodyInfoT =
  body_header :: Header
  body_count :: nat
  infos :: "BodyT list"

record TrackResultT =
  track_header :: Header
  track_roi :: RegionOfInterest

text \<open>
  Of a recognised face the report keeps the region and the identity; the scores and
  angles copied beside them play no part in what follows and are left out.
\<close>

record FaceT =
  face_roi :: RegionOfInterest
  face_id :: string

record FaceInfoT =
  face_header :: Header
  face_count :: nat
  face_infos :: "FaceT list"

record PersonInfoT =
  person_header :: Header
  body_info :: BodyInfoT
  face_info :: FaceInfoT
  track_res :: TrackResultT

text \<open>A default-constructed \<open>PersonInfoT\<close>, which the report is reset to after a publish.\<close>

definition PersonInfoT0 :: PersonInfoT where
  "PersonInfoT0 =
     \<lparr>person_header = 0,
      body_info = \<lparr>body_header = 0, body_count = 0, infos = []\<rparr>,
      face_info = \<lparr>face_header = 0, face_count = 0, face_infos = []\<rparr>,
      track_res = \<lparr>track_header = 0, track_roi = ROI0\<rparr>\<rparr>"

text \<open>An access outside a vector's bounds, which C++ leaves undefined.\<close>

datatype fault = OutOfRange

section \<open>The ReID annotation\<close>

text \<open>\<open>std::to_string\<close> of an \<open>int\<close>: decimal digits, with a minus sign.\<close>

fun digits :: "nat \<Rightarrow> string" where
  "digits n = (if n < 10 then [char_of (48 + n)] else digits (n div 10) @ [char_of (48 + n mod 10)])"

definition to_string :: "int \<Rightarrow> string" where
  "to_string i = (if i < 0 then CHR ''-'' # digits (nat (- i)) else digits (nat i))"

text \<open>
  \<open>AddReid\<close>: the early return, then the search for the entry that overlaps the
  tracked rectangle most, then the write at the index found.
\<close>

fun AddReid_loop :: "Rect \<Rightarrow> BodyT list \<Rightarrow> nat \<Rightarrow> dbl \<times> nat \<Rightarrow> dbl \<times> nat" where
  "AddReid_loop tracked [] i acc = acc"
| "AddReid_loop tracked (b # bs) i (iou_max, index) =
     (let body = \<lparr>left = word_of_int (rect_x tracked), top = word_of_int (rect_y tracked),
                   width = word_of_int (rect_width tracked),
                   height = word_of_int (rect_height tracked)\<rparr>;
          iou = GetIOU body (body_roi b)
      in if dbl_gt iou iou_max then AddReid_loop tracked bs (Suc i) (iou, i)
         else AddReid_loop tracked bs (Suc i) (iou_max, index))"

definition AddReid :: "BodyInfoT \<Rightarrow> int \<Rightarrow> Rect \<Rightarrow> fault + BodyInfoT" where
  "AddReid binfo pid tracked =
     (if 0 \<noteq> length (infos binfo) then Inr binfo
      else
        let (iou_max, index) = AddReid_loop tracked (infos binfo) 0 (Finite 0, 0)
        in if index < length (infos binfo)
           then Inr (binfo\<lparr>infos :=
                  (infos binfo)[index := (infos binfo ! index)\<lparr>reid := to_string pid\<rparr>]\<rparr>)
           else Inl OutOfRange)"

section \<open>The manager's state\<close>

text \<open>
  The inference engines are outside the repository.  What the manager does to a tracker
  is the list of calls it has made on it, oldest first; what a call returns is a
  parameter of the function that makes it, and may depend on the calls made before.
\<close>

datatype call = SetTracker Mat Rect | ResetTracker

datatype TrackingStatus = STATUS_SELECTING | STATUS_TRACKING

record BodyResults =
  body_infos :: "HumanBodyInfo list list"
  detection_img :: StampedImage
  body_filled :: bool

record GlobalImageBuf =
  img_buf :: "StampedImage list"
  is_filled :: bool

type_synonym library = "string \<rightharpoonup> real list"

text \<open>The six algorithms, each with its worker thread and its \<open>AlgoStruct\<close>.\<close>

datatype worker = Body | Face | Focus | ReID | Gesture | Keypoints

record VisionManager =
  open_face :: bool
  open_body :: bool
  open_gesture :: bool
  open_keypoints :: bool
  open_reid :: bool
  open_focus :: bool
  is_activate :: bool
  threads_running :: bool
  publishers_active :: bool
  face_library :: library
  body_results :: BodyResults
  global_img_buf :: GlobalImageBuf
  processing_status :: TrackingStatus
  reid_ptr :: "call list"
  focus_ptr :: "call list"
  is_called :: "worker \<Rightarrow> bool"
  process_num :: int
  algo_result :: PersonInfoT

text \<open>
  The manager as its constructor leaves it: every algorithm closed, not active.  The
  fields the constructor does not name are default-constructed.
\<close>

definition vm_init :: VisionManager where
  "vm_init =
     \<lparr>open_face = False, open_body = False, open_gesture = False, open_keypoints = False,
      open_reid = False, open_focus = False, is_activate = False,
      threads_running = False, publishers_active = False,
      face_library = Map.empty,
      body_results = \<lparr>body_infos = [], detection_img = \<lparr>header = 0, img = Mat 0\<rparr>,
                      body_filled = False\<rparr>,
      global_img_buf = \<lparr>img_buf = [], is_filled = False\<rparr>,
      processing_status = STATUS_SELECTING,
      reid_ptr = [], focus_ptr = [],
      is_called = (\<lambda>w. False), process_num = 0,
      algo_result = PersonInfoT0\<rparr>"

section \<open>Tracking-target resolution\<close>

definition rect_of :: "HumanBodyInfo \<Rightarrow> Rect" where
  "rect_of b = \<lparr>rect_x = sint (left b), rect_y = sint (top b),
               rect_width = sint (width b), rect_height = sint (height b)\<rparr>"

text \<open>The inner loop of \<open>GetMatchBody\<close>, over the detections of one history entry.\<close>

fun match_entry :: "HumanBodyInfo list \<Rightarrow> RegionOfInterest \<Rightarrow> dbl \<times> Rect \<Rightarrow> dbl \<times> Rect" where
  "match_entry [] roi acc = acc"
| "match_entry (b # bs) roi (max_score, track_rect) =
     (let score = GetIOU b roi
      in if dbl_gt score max_score \<and> dbl_gt score (Finite 0.5)
         then match_entry bs roi (score, rect_of b)
         else match_entry bs roi (max_score, track_rect))"

text \<open>
  The outer loop, \<open>for (size_t i = size - 1; i > 0 && !is_found; --i)\<close>, from the
  index \<open>i\<close> on.  Reading \<open>body_infos[i]\<close> with \<open>i\<close> outside the vector is a fault.
  The image kept on a match is \<open>body_results_.detection_img.img\<close>.
\<close>

fun scan :: "HumanBodyInfo list list \<Rightarrow> Mat \<Rightarrow> RegionOfInterest \<Rightarrow> nat
    \<Rightarrow> bool \<times> Mat \<times> Rect \<Rightarrow> fault + (bool \<times> Mat \<times> Rect)" where
  "scan hist dimg roi i (is_found, track_img, track_rect) =
     (if 0 < i \<and> \<not> is_found then
        (if i < length hist then
           (case match_entry (hist ! i) roi (Finite 0, track_rect) of
              (max_score, r) \<Rightarrow>
                if dbl_gt max_score (Finite 0.5)
                then scan hist dimg roi (i - 1) (True, dimg, r)
                else scan hist dimg roi (i - 1) (is_found, track_img, r))
         else Inl OutOfRange)
      else Inr (is_found, track_img, track_rect))"

text \<open>The first index of the loop: \<open>size() - 1\<close> in \<open>size_t\<close>, 64 bits wide.\<close>

definition first_index :: "'a list \<Rightarrow> nat" where
  "first_index hist = unat ((of_nat (length hist) :: 64 word) - 1)"

text \<open>
  \<open>GetMatchBody\<close> returns 0 or -1.  \<open>set_rc\<close> is the return value of the ReID engine's
  \<open>SetTracker\<close>, given the calls made on it so far.
\<close>

definition GetMatchBody :: "(call list \<Rightarrow> Mat \<Rightarrow> Rect \<Rightarrow> int) \<Rightarrow> RegionOfInterest
    \<Rightarrow> VisionManager \<Rightarrow> fault + (int \<times> VisionManager)" where
  "GetMatchBody set_rc roi vm =
     (let hist = body_infos (body_results vm)
      in case scan hist (img (detection_img (body_results vm))) roi (first_index hist)
                (False, Mat 0, Rect0) of
           Inl f \<Rightarrow> Inl f
         | Inr (is_found, track_img, track_rect) \<Rightarrow>
             if is_found then
               (let vm' = vm\<lparr>reid_ptr := reid_ptr vm @ [SetTracker track_img track_rect]\<rparr>
                in if 0 \<noteq> set_rc (reid_ptr vm) track_img track_rect
                   then Inr (- 1, vm') else Inr (0, vm'))
             else Inr (- 1, vm))"

text \<open>
  \<open>TrackingService\<close>; \<open>res\<close> is the \<open>success\<close> field of the response as the service
  finds it.  \<open>focus_ok\<close> is the return value of the focus engine's \<open>SetTracker\<close>.
  \<open>img_buf.back()\<close> on an empty buffer is a fault.
\<close>

definition TrackingService :: "(call list \<Rightarrow> Mat \<Rightarrow> Rect \<Rightarrow> int)
    \<Rightarrow> (call list \<Rightarrow> Mat \<Rightarrow> Rect \<Rightarrow> bool) \<Rightarrow> RegionOfInterest \<Rightarrow> bool
    \<Rightarrow> VisionManager \<Rightarrow> fault + (bool \<times> VisionManager)" where
  "TrackingService set_rc focus_ok req_roi res vm =
     (case (if open_reid vm then
              (case GetMatchBody set_rc req_roi vm of
                 Inl f \<Rightarrow> Inl f
               | Inr (rc, vm') \<Rightarrow>
                   if 0 \<noteq> rc then Inr (False, vm')
                   else Inr (True, vm'\<lparr>processing_status := STATUS_TRACKING\<rparr>))
            else Inr (res, vm)) of
        Inl f \<Rightarrow> Inl f
      | Inr (res1, vm1) \<Rightarrow>
          if open_focus vm1 then
            (if img_buf (global_img_buf vm1) = [] then Inl OutOfRange
             else
               let stamped_img = last (img_buf (global_img_buf vm1));
                   rect = Convert_roi req_roi;
                   vm2 = vm1\<lparr>focus_ptr := focus_ptr vm1 @ [SetTracker (img stamped_img) rect]\<rparr>
               in if \<not> focus_ok (focus_ptr vm1) (img stamped_img) rect
                  then Inr (False, vm2)
                  else Inr (True, vm2\<lparr>processing_status := STATUS_TRACKING\<rparr>))
          else Inr (res1, vm1))"

text \<open>
  What \<open>BodyDet\<close> does to the detection history after a successful detection: the
  oldest entry is evicted once \<open>buf_size_\<close> entries are held, the new detections are
  appended, and the one image slot is overwritten with the image just processed.
\<close>

definition BodyDet_store :: "nat \<Rightarrow> StampedImage \<Rightarrow> HumanBodyInfo list \<Rightarrow> BodyResults
    \<Rightarrow> BodyResults" where
  "BodyDet_store buf_size stamped_img infos' br =
     br\<lparr>body_infos :=
          (if buf_size \<le> length (body_infos br) then tl (body_infos br) else body_infos br)
            @ [infos'],
        detection_img := stamped_img,
        body_filled := True\<rparr>"


section \<open>Enabling and disabling algorithms\<close>

text \<open>
  The identifiers of the six algorithms and the two result codes are constants of the
  message definitions \<open>AlgoListT\<close> and \<open>AlgoManagerT\<close>, which are not part of this
  repository's sources; they are parameters here.
\<close>

record AlgoConsts =
  ALGO_FACE :: "8 word"
  ALGO_BODY :: "8 word"
  ALGO_GESTURE :: "8 word"
  ALGO_KEYPOINTS :: "8 word"
  ALGO_REID :: "8 word"
  ALGO_FOCUS :: "8 word"
  ENABLE_SUCCESS :: "8 word"
  DISABLE_SUCCESS :: "8 word"

record AlgoListT =
  algo_module :: "8 word"

record AlgoManagerRequest =
  algo_enable :: "AlgoListT list"
  algo_disable :: "AlgoListT list"

record AlgoManagerResponse =
  result_enable :: "8 word"
  result_disable :: "8 word"

text \<open>
  \<open>LoadFaceLibrary\<close> reads the library file: \<open>disk\<close> is \<open>None\<close> when the file cannot
  be opened, and then the library in memory stays as it is; otherwise it holds the
  (name, feature) entries of the file in order, which replace the library, the first
  entry of a name winning as \<open>std::map::insert\<close> has it.
\<close>

definition LoadFaceLibrary :: "(string \<times> real list) list option \<Rightarrow> VisionManager
    \<Rightarrow> VisionManager" where
  "LoadFaceLibrary disk vm =
     (case disk of
        None \<Rightarrow> vm
      | Some entries \<Rightarrow>
          vm\<lparr>face_library :=
               fold (\<lambda>(name, feat) lib. if lib name = None then lib(name \<mapsto> feat) else lib)
                 entries Map.empty\<rparr>)"

definition SetAlgoState :: "AlgoConsts \<Rightarrow> (string \<times> real list) list option \<Rightarrow> AlgoListT
    \<Rightarrow> bool \<Rightarrow> VisionManager \<Rightarrow> VisionManager" where
  "SetAlgoState K disk algo_list val vm =
     (if algo_module algo_list = ALGO_FACE K then
        (if val then LoadFaceLibrary disk (vm\<lparr>open_face := val\<rparr>) else vm\<lparr>open_face := val\<rparr>)
      else if algo_module algo_list = ALGO_BODY K then vm\<lparr>open_body := val\<rparr>
      else if algo_module algo_list = ALGO_GESTURE K then vm\<lparr>open_gesture := val\<rparr>
      else if algo_module algo_list = ALGO_KEYPOINTS K then vm\<lparr>open_keypoints := val\<rparr>
      else if algo_module algo_list = ALGO_REID K then vm\<lparr>open_reid := val\<rparr>
      else if algo_module algo_list = ALGO_FOCUS K then vm\<lparr>open_focus := val\<rparr>
      else vm)"

definition AlgoManagerService :: "AlgoConsts \<Rightarrow> (string \<times> real list) list option
    \<Rightarrow> AlgoManagerRequest \<Rightarrow> AlgoManagerResponse \<Rightarrow> VisionManager
    \<Rightarrow> AlgoManagerResponse \<times> VisionManager" where
  "AlgoManagerService K disk req res vm =
     (let vm1 = fold (\<lambda>a. SetAlgoState K disk a True) (algo_enable req) vm;
          vm2 = fold (\<lambda>a. SetAlgoState K disk a False) (algo_disable req) vm1
      in (res\<lparr>result_enable := ENABLE_SUCCESS K, result_disable := DISABLE_SUCCESS K\<rparr>, vm2))"

section \<open>Activation and deactivation\<close>

text \<open>
  The camera service as \<open>CallService\<close> meets it: whether it becomes available within
  the ten seconds of \<open>wait_for_service\<close>, and what the remote call answers, if it ever
  does (\<open>None\<close>: it never completes).  \<open>CallService\<close> sends the request and returns
  at once; the answer reaches only the callback, whose value nobody reads.
\<close>

record Camera =
  service_available :: bool
  remote_result :: "int option"

definition CallService :: "Camera \<Rightarrow> 8 word \<Rightarrow> string \<Rightarrow> bool" where
  "CallService cam cmd args = (if \<not> service_available cam then False else True)"

datatype ReturnResultT = SUCCESS | FAILURE





definition on_activate :: "Camera \<Rightarrow> VisionManager \<Rightarrow> ReturnResultT \<times> VisionManager" where
  "on_activate cam vm =
     (if \<not> CallService cam 0 ''face-interval=1'' then (FAILURE, vm)
      else (SUCCESS, vm\<lparr>is_activate := True, threads_running := True,
                         publishers_active := True,
                         processing_status := STATUS_SELECTING\<rparr>))"


section \<open>Face enrollment\<close>

text \<open>
  What \<open>FaceDetProc\<close> publishes depends on what it observes each time round its loop:
  the seconds elapsed since it started and the flag \<open>face_detect_\<close> as the loop
  condition reads them, and then the next frame, if one ever arrives (\<open>None\<close>: the wait
  for a frame never ends).  Of a frame it uses the return code and message of
  \<open>checkFacePose\<close> and, when the pose is accepted, whether recognition finds the face in
  the library already (\<open>dup\<close>: the identity found, with a score above 0.65).
\<close>

record frame_obs =
  pose_ret :: int
  pose_msg :: string
  dup :: "string option"

record tick =
  elapsed :: int
  detect :: bool
  frame :: "frame_obs option"

record FaceResultT =
  result :: int
  msg :: string
  face_image :: "string option"

text \<open>
  \<open>publishFaceResult\<close> gives the event it publishes: the image of the face, named
  after it, is attached when the result is 0 or 17.
\<close>

definition publishFaceResult :: "int \<Rightarrow> string \<Rightarrow> string \<Rightarrow> FaceResultT" where
  "publishFaceResult r face_name face_msg =
     \<lparr>result = r, msg = face_msg,
      face_image = (if r = 0 \<or> r = 17 then Some face_name else None)\<rparr>"

text \<open>
  The loop of \<open>FaceDetProc\<close>.  It returns the name, \<open>get_face_timeout\<close> and the events
  published so far when the loop ends, and \<open>None\<close> when the observations end before it
  does or a frame never arrives.
\<close>

fun FaceDetProc_loop :: "tick list \<Rightarrow> string \<Rightarrow> bool \<Rightarrow> FaceResultT list
    \<Rightarrow> (string \<times> bool \<times> FaceResultT list) option" where
  "FaceDetProc_loop [] face_name get_face_timeout evs = None"
| "FaceDetProc_loop (t # ts) face_name get_face_timeout evs =
     (if elapsed t < 40 \<and> detect t then
        (case frame t of
           None \<Rightarrow> None
         | Some f \<Rightarrow>
             (case (if pose_ret f = 0 then
                      (case dup f of
                         Some found \<Rightarrow> (17, found, ''face already in endlib'')
                       | None \<Rightarrow> (0, face_name, pose_msg f))
                    else (pose_ret f, face_name, pose_msg f)) of
                (ret, name', m) \<Rightarrow>
                  if ret = 0 \<or> ret = 17
                  then Some (name', False, evs @ [publishFaceResult ret name' m])
                  else FaceDetProc_loop ts name' True (evs @ [publishFaceResult ret name' m])))
      else Some (face_name, get_face_timeout, evs))"

text \<open>
  \<open>FaceDetProc\<close>: the loop, then the time-out event if \<open>get_face_timeout\<close> is set and
  \<open>face_detect_\<close>, read once more, still is.
\<close>

definition FaceDetProc :: "tick list \<Rightarrow> string \<Rightarrow> bool \<Rightarrow> FaceResultT list option" where
  "FaceDetProc ticks face_name detect_final =
     (case FaceDetProc_loop ticks face_name True [] of
        None \<Rightarrow> None
      | Some (name', get_face_timeout, evs) \<Rightarrow>
          if get_face_timeout \<and> detect_final
          then Some (evs @ [publishFaceResult 3 name' ''timeout''])
          else Some evs)"

text \<open>
  The \<open>ADD_FACE\<close> branch of \<open>FaceManagerService\<close>: the result of the response, and what
  the task it starts publishes (nothing when no task is started).
\<close>

definition FaceManagerService_ADD_FACE :: "string \<Rightarrow> tick list \<Rightarrow> bool
    \<Rightarrow> int \<times> FaceResultT list option" where
  "FaceManagerService_ADD_FACE username ticks detect_final =
     (if length username = 0 then (- 1, Some [])
      else (0, FaceDetProc ticks username detect_final))"

text \<open>
  A round of the loop that ends with the pose refused, given as the seconds elapsed
  and the frame: the tick it is, the condition for the loop to go on, and the event it
  publishes, which carries the code of the pose check.
\<close>

definition going :: "int \<times> frame_obs \<Rightarrow> tick" where
  "going ef = \<lparr>elapsed = fst ef, detect = True, frame = Some (snd ef)\<rparr>"

definition refused :: "int \<times> frame_obs \<Rightarrow> bool" where
  "refused ef = (fst ef < 40 \<and> pose_ret (snd ef) \<noteq> 0 \<and> pose_ret (snd ef) \<noteq> 17)"

definition refusal :: "string \<Rightarrow> int \<times> frame_obs \<Rightarrow> FaceResultT" where
  "refusal face_name ef = publishFaceResult (pose_ret (snd ef)) face_name (pose_msg (snd ef))"

section \<open>What the workers write into the report\<close>

record GestureInfo =
  g_rect :: Rect
  label :: int

record Point2f =
  pt_x :: real
  pt_y :: real

text \<open>\<open>Convert\<close> of a detection result: the body list is cleared and rebuilt.\<close>

definition Convert_body :: "Header \<Rightarrow> HumanBodyInfo list \<Rightarrow> BodyInfoT" where
  "Convert_body h from =
     \<lparr>body_header = h, body_count = length from,
      infos = map (\<lambda>b. BodyT0\<lparr>body_roi :=
                 \<lparr>x_offset = left b, y_offset = top b, roi_height = height b,
                  roi_width = width b\<rparr>\<rparr>) from\<rparr>"

text \<open>
  \<open>Convert\<close> of a gesture result writes entry \<open>i\<close> of the result into entry \<open>i\<close> of
  the body list that the report holds, from index \<open>i\<close> on; an entry the list does not
  have is a fault.
\<close>

fun Convert_gesture :: "GestureInfo list \<Rightarrow> nat \<Rightarrow> BodyInfoT \<Rightarrow> fault + BodyInfoT" where
  "Convert_gesture [] i to = Inr to"
| "Convert_gesture (g # gs) i to =
     (if i < length (infos to)
      then Convert_gesture gs (Suc i)
             (to\<lparr>infos := (infos to)[i := (infos to ! i)\<lparr>gesture :=
                   \<lparr>gesture_roi = Convert_rect (g_rect g), cls = label g\<rparr>\<rparr>]\<rparr>)
      else Inl OutOfRange)"

text \<open>
  \<open>Convert\<close> of a keypoints result: the keypoints of entry \<open>i\<close> are resized to
  \<open>kKeypointsNum * sizeof(cv::Point2f)\<close>, which is 17 times 8, and the points found
  are appended.
\<close>

definition resize :: "'a list \<Rightarrow> nat \<Rightarrow> 'a \<Rightarrow> 'a list" where
  "resize xs n d = take n xs @ replicate (n - length xs) d"

fun Convert_keypoints :: "Point2f list list \<Rightarrow> nat \<Rightarrow> BodyInfoT \<Rightarrow> fault + BodyInfoT" where
  "Convert_keypoints [] i to = Inr to"
| "Convert_keypoints (ps # pss) i to =
     (if i < length (infos to)
      then Convert_keypoints pss (Suc i)
             (to\<lparr>infos := (infos to)[i := (infos to ! i)\<lparr>keypoints :=
                   resize (keypoints (infos to ! i)) (17 * 8) \<lparr>kp_x = 0, kp_y = 0\<rparr>
                   @ map (\<lambda>p. \<lparr>kp_x = pt_x p, kp_y = pt_y p\<rparr>) ps\<rparr>]\<rparr>)
      else Inl OutOfRange)"

text \<open>
  What a worker has computed when it enters its store block, and the store block
  itself: the counter is decremented and the worker's fields of the report are written.
\<close>

datatype contribution =
    C_Body Header "HumanBodyInfo list"
  | C_Face Header "FaceT list"
  | C_Focus Header bool Rect
  | C_ReID int Rect
  | C_Gesture bool "GestureInfo list"
  | C_Keypoints "Point2f list list"

fun write_result :: "contribution \<Rightarrow> PersonInfoT \<Rightarrow> fault + PersonInfoT" where
  "write_result (C_Body h found) r = Inr (r\<lparr>body_info := Convert_body h found\<rparr>)"
| "write_result (C_Face h faces) r =
     Inr (r\<lparr>face_info := \<lparr>face_header = h, face_count = length faces, face_infos = faces\<rparr>\<rparr>)"
| "write_result (C_Focus h is_success t) r =
     Inr (if is_success then r\<lparr>track_res := \<lparr>track_header = h, track_roi = Convert_rect t\<rparr>\<rparr>
          else r)"
| "write_result (C_ReID person_id tracked_bbox) r =
     (if - 1 \<noteq> person_id then
        (case AddReid (body_info r) person_id tracked_bbox of
           Inl f \<Rightarrow> Inl f
         | Inr b \<Rightarrow>
             Inr (r\<lparr>body_info := b,
                    track_res := \<lparr>track_header = body_header b,
                                  track_roi = Convert_rect tracked_bbox\<rparr>\<rparr>))
      else Inr r)"
| "write_result (C_Gesture is_success gs) r =
     (if is_success then
        (case Convert_gesture gs 0 (body_info r) of
           Inl f \<Rightarrow> Inl f
         | Inr b \<Rightarrow> Inr (r\<lparr>body_info := b\<rparr>))
      else Inr r)"
| "write_result (C_Keypoints pss) r =
     (case Convert_keypoints pss 0 (body_info r) of
        Inl f \<Rightarrow> Inl f
      | Inr b \<Rightarrow> Inr (r\<lparr>body_info := b\<rparr>))"

definition store_block :: "contribution \<Rightarrow> VisionManager \<Rightarrow> fault + VisionManager" where
  "store_block c vm =
     (case write_result c (algo_result vm) of
        Inl f \<Rightarrow> Inl f
      | Inr r \<Rightarrow> Inr (vm\<lparr>process_num := process_num vm - 1, algo_result := r\<rparr>))"

section \<open>The scheduler\<close>

text \<open>
  The two managers: \<open>MainAlgoManager\<close> drives stage 1 and \<open>DependAlgoManager\<close> stage 2.
\<close>

datatype stage = Stage1 | Stage2

definition first_worker :: "stage \<Rightarrow> worker" where
  "first_worker st = (case st of Stage1 \<Rightarrow> Body | Stage2 \<Rightarrow> ReID)"

fun next_worker :: "worker \<Rightarrow> worker option" where
  "next_worker Body = Some Face"
| "next_worker Face = Some Focus"
| "next_worker Focus = None"
| "next_worker ReID = Some Gesture"
| "next_worker Gesture = Some Keypoints"
| "next_worker Keypoints = None"

fun is_open :: "worker \<Rightarrow> VisionManager \<Rightarrow> bool" where
  "is_open Body vm = open_body vm"
| "is_open Face vm = open_face vm"
| "is_open Focus vm = open_focus vm"
| "is_open ReID vm = open_reid vm"
| "is_open Gesture vm = open_gesture vm"
| "is_open Keypoints vm = open_keypoints vm"

text \<open>
  The block a manager runs for one worker: if the algorithm is open and the worker's
  flag is clear, the counter is incremented and the flag set.
\<close>

definition trigger :: "worker \<Rightarrow> VisionManager \<Rightarrow> VisionManager" where
  "trigger w vm =
     (if is_open w vm then
        (if \<not> is_called vm w
         then vm\<lparr>process_num := process_num vm + 1, is_called := (is_called vm)(w := True)\<rparr>
         else vm)
      else vm)"

text \<open>The condition under which a manager goes on to wait and publish.\<close>

fun gate :: "stage \<Rightarrow> VisionManager \<Rightarrow> bool" where
  "gate Stage1 vm =
     (\<not> open_gesture vm \<and> \<not> open_keypoints vm \<and> \<not> open_reid vm \<and>
      (open_body vm \<or> open_face vm \<or> open_focus vm))"
| "gate Stage2 vm = (open_gesture vm \<or> open_keypoints vm \<or> open_reid vm)"

text \<open>What wakes a manager, and its consumption.\<close>

fun filled :: "stage \<Rightarrow> VisionManager \<Rightarrow> bool" where
  "filled Stage1 vm = is_filled (global_img_buf vm)"
| "filled Stage2 vm = body_filled (body_results vm)"

fun unfill :: "stage \<Rightarrow> VisionManager \<Rightarrow> VisionManager" where
  "unfill Stage1 vm = vm\<lparr>global_img_buf := (global_img_buf vm)\<lparr>is_filled := False\<rparr>\<rparr>"
| "unfill Stage2 vm = vm\<lparr>body_results := (body_results vm)\<lparr>body_filled := False\<rparr>\<rparr>"

text \<open>
  The threads run interleaved; each step below is one block of a thread that runs
  under a lock or touches only the thread's own variables.  A manager is waiting to
  be woken, about to run the block of a worker, about to test whether it publishes,
  or waiting for the counter to be zero.  A worker is waiting for its flag, has
  consumed it, holds the image it read, or holds its result and is about to store it.
  A thread that wakes to find the manager inactive has returned.
\<close>

datatype mpc = M_Wait | M_Trigger worker | M_Gate | M_Publish | M_Exit

datatype wpc = W_Wait | W_Woken | W_Image StampedImage | W_Done contribution | W_Exit

text \<open>
  What an inference engine returns.  \<open>Detect\<close>: the bodies, or \<open>None\<close> for the return
  value -1.  \<open>Track\<close> and \<open>ReIDInfo\<close>: the last component is what \<open>GetLostStatus\<close>
  says afterwards.
\<close>

datatype engine_out =
    Detect "HumanBodyInfo list option"
  | Recognize "FaceT list"
  | Track bool Rect bool
  | ReIDInfo int Rect bool
  | GestureOut int "GestureInfo list"
  | KeypointsOut "Point2f list list"

text \<open>
  The system: the manager object, where each thread stands, and what has been
  published on the person topic, with the stage whose manager published it and the
  number of that manager's cycle.
\<close>

record sys =
  mgr :: VisionManager
  manager_pc :: "stage \<Rightarrow> mpc"
  cycle :: "stage \<Rightarrow> nat"
  worker_pc :: "worker \<Rightarrow> wpc"
  published :: "(stage \<times> nat \<times> PersonInfoT) list"
  status_published :: "TrackingStatus list"

datatype event =
    NewFrame StampedImage
  | Control AlgoConsts "(string \<times> real list) list option" AlgoManagerRequest
  | Manager stage
  | Wake worker
  | Snapshot worker
  | Infer worker engine_out
  | Store worker

datatype outcome = Blocked | Fault | Next sys

text \<open>One step of a manager.\<close>

definition manager_step :: "stage \<Rightarrow> sys \<Rightarrow> outcome" where
  "manager_step st s =
     (case manager_pc s st of
        M_Wait \<Rightarrow>
          if filled st (mgr s) then
            Next (s\<lparr>mgr := unfill st (mgr s),
                    cycle := (cycle s)(st := Suc (cycle s st)),
                    manager_pc := (manager_pc s)
                      (st := if is_activate (mgr s) then M_Trigger (first_worker st) else M_Exit)\<rparr>)
          else Blocked
      | M_Trigger w \<Rightarrow>
          Next (s\<lparr>mgr := trigger w (mgr s),
                  manager_pc := (manager_pc s)
                    (st := case next_worker w of Some w' \<Rightarrow> M_Trigger w' | None \<Rightarrow> M_Gate)\<rparr>)
      | M_Gate \<Rightarrow>
          Next (s\<lparr>manager_pc := (manager_pc s)
                    (st := if gate st (mgr s) then M_Publish else M_Wait)\<rparr>)
      | M_Publish \<Rightarrow>
          if process_num (mgr s) = 0 then
            Next (s\<lparr>published := published s @ [(st, cycle s st, algo_result (mgr s))],
                    mgr := (mgr s)\<lparr>algo_result := PersonInfoT0\<rparr>,
                    status_published :=
                      (if open_body (mgr s) \<or> open_focus (mgr s)
                       then status_published s @ [processing_status (mgr s)]
                       else status_published s),
                    manager_pc := (manager_pc s)(st := M_Wait)\<rparr>)
          else Blocked
      | M_Exit \<Rightarrow> Blocked)"

text \<open>
  A worker passes its wait when its flag is set, and clears the flag.
\<close>

definition wake_step :: "worker \<Rightarrow> sys \<Rightarrow> outcome" where
  "wake_step w s =
     (if worker_pc s w = W_Wait \<and> is_called (mgr s) w then
        Next (s\<lparr>mgr := (mgr s)\<lparr>is_called := (is_called (mgr s))(w := False)\<rparr>,
                worker_pc := (worker_pc s)
                  (w := if is_activate (mgr s) then W_Woken else W_Exit)\<rparr>)
      else Blocked)"

text \<open>
  A stage-1 worker copies the newest frame, \<open>img_buf.back()\<close>; on an empty buffer that
  is a fault.
\<close>

definition snapshot_step :: "worker \<Rightarrow> sys \<Rightarrow> outcome" where
  "snapshot_step w s =
     (if worker_pc s w = W_Woken \<and> (w = Body \<or> w = Face \<or> w = Focus) then
        (if img_buf (global_img_buf (mgr s)) = [] then Fault
         else Next (s\<lparr>worker_pc := (worker_pc s)
                         (w := W_Image (last (img_buf (global_img_buf (mgr s)))))\<rparr>))
      else Blocked)"

text \<open>
  A worker calls its engine.  The body worker appends a successful detection to the
  history, which wakes the stage-2 manager.  The stage-2 workers read
  \<open>body_infos.back()\<close>, a fault on an empty history.  A tracker that reports its
  target lost sets the status back to selecting.
\<close>

definition lost_status :: "bool \<Rightarrow> VisionManager \<Rightarrow> VisionManager" where
  "lost_status lost vm = (if lost then vm\<lparr>processing_status := STATUS_SELECTING\<rparr> else vm)"

definition infer_step :: "worker \<Rightarrow> wpc \<Rightarrow> engine_out \<Rightarrow> sys \<Rightarrow> outcome" where
  "infer_step w pc out s =
     (case (w, pc, out) of
        (Body, W_Image simg, Detect (Some found)) \<Rightarrow>
          Next (s\<lparr>mgr := (mgr s)\<lparr>body_results :=
                            BodyDet_store 6 simg found (body_results (mgr s))\<rparr>,
                  worker_pc := (worker_pc s)(Body := W_Done (C_Body (header simg) found))\<rparr>)
      | (Body, W_Image simg, Detect None) \<Rightarrow>
          Next (s\<lparr>worker_pc := (worker_pc s)(Body := W_Done (C_Body (header simg) []))\<rparr>)
      | (Face, W_Image simg, Recognize faces) \<Rightarrow>
          Next (s\<lparr>worker_pc := (worker_pc s)(Face := W_Done (C_Face (header simg) faces))\<rparr>)
      | (Focus, W_Image simg, Track is_success t lost) \<Rightarrow>
          Next (s\<lparr>mgr := lost_status lost (mgr s),
                  worker_pc := (worker_pc s)
                    (Focus := W_Done (C_Focus (header simg) is_success t))\<rparr>)
      | (ReID, W_Woken, ReIDInfo person_id tracked_bbox lost) \<Rightarrow>
          if body_infos (body_results (mgr s)) = [] then Fault
          else Next (s\<lparr>mgr := lost_status lost (mgr s),
                       worker_pc := (worker_pc s)
                         (ReID := W_Done (C_ReID person_id tracked_bbox))\<rparr>)
      | (Gesture, W_Woken, GestureOut rc gs) \<Rightarrow>
          if body_infos (body_results (mgr s)) = [] then Fault
          else Next (s\<lparr>worker_pc := (worker_pc s)
                         (Gesture := W_Done (C_Gesture (- 1 \<noteq> rc) gs))\<rparr>)
      | (Keypoints, W_Woken, KeypointsOut pss) \<Rightarrow>
          if body_infos (body_results (mgr s)) = [] then Fault
          else Next (s\<lparr>worker_pc := (worker_pc s)(Keypoints := W_Done (C_Keypoints pss))\<rparr>)
      | _ \<Rightarrow> Blocked)"

text \<open>A worker runs its store block and goes back to wait for its flag.\<close>

definition store_step :: "worker \<Rightarrow> sys \<Rightarrow> outcome" where
  "store_step w s =
     (case worker_pc s w of
        W_Done c \<Rightarrow>
          (case store_block c (mgr s) of
             Inl f \<Rightarrow> Fault
           | Inr vm' \<Rightarrow> Next (s\<lparr>mgr := vm', worker_pc := (worker_pc s)(w := W_Wait)\<rparr>))
      | _ \<Rightarrow> Blocked)"

text \<open>
  One step of the system.  \<open>NewFrame\<close> is \<open>ImageProc\<close> putting a frame into the
  buffer; \<open>Control\<close> is a call of \<open>AlgoManagerService\<close>.
\<close>

fun step :: "event \<Rightarrow> sys \<Rightarrow> outcome" where
  "step (NewFrame simg) s =
     (if is_activate (mgr s)
      then Next (s\<lparr>mgr := (mgr s)\<lparr>global_img_buf := \<lparr>img_buf = [simg], is_filled = True\<rparr>\<rparr>\<rparr>)
      else Blocked)"
| "step (Control K disk req) s =
     Next (s\<lparr>mgr := snd (AlgoManagerService K disk req
                           \<lparr>result_enable = 0, result_disable = 0\<rparr> (mgr s))\<rparr>)"
| "step (Manager st) s = manager_step st s"
| "step (Wake w) s = wake_step w s"
| "step (Snapshot w) s = snapshot_step w s"
| "step (Infer w out) s = infer_step w (worker_pc s w) out s"
| "step (Store w) s = store_step w s"

text \<open>A run: the events in order, as long as each can happen.\<close>

fun run :: "event list \<Rightarrow> sys \<Rightarrow> outcome" where
  "run [] s = Next s"
| "run (e # es) s = (case step e s of Next s' \<Rightarrow> run es s' | Blocked \<Rightarrow> Blocked | Fault \<Rightarrow> Fault)"

text \<open>The system as a successful activation leaves it, with every thread at its wait.\<close>

definition sys_init :: sys where
  "sys_init =
     \<lparr>mgr = snd (on_activate \<lparr>service_available = True, remote_result = Some 0\<rparr> vm_init),
      manager_pc = (\<lambda>st. M_Wait), cycle = (\<lambda>st. 0), worker_pc = (\<lambda>w. W_Wait),
      published = [], status_published = []\<rparr>"





text \<open>
  A report whose detections carry no ReID annotation, and a system in which neither
  the report being filled nor any published report carries one.
\<close>

definition no_reid :: "PersonInfoT \<Rightarrow> bool" where
  "no_reid r = (\<forall>b\<in>set (infos (body_info r)). reid b = [])"

definition reid_free :: "sys \<Rightarrow> bool" where
  "reid_free s =
     (no_reid (algo_result (mgr s)) \<and> (\<forall>p\<in>set (published s). no_reid (snd (snd p))))"

definition unannotated :: "sys \<Rightarrow> bool" where
  "unannotated s =
     (\<forall>p\<in>set (published s). \<forall>d\<in>set (infos (body_info (snd (snd p)))). reid d = [])"

text \<open>What is seen of the system after a run, if the run gets through.\<close>

definition observe :: "(sys \<Rightarrow> 'a) \<Rightarrow> outcome \<Rightarrow> 'a option" where
  "observe f out = (case out of Next s \<Rightarrow> Some (f s) | Blocked \<Rightarrow> None | Fault \<Rightarrow> None)"


definition counter :: "sys \<Rightarrow> int" where
  "counter s = process_num (mgr s)"

definition published_bodies :: "sys \<Rightarrow> (stage \<times> nat \<times> Header \<times> BodyT list) list" where
  "published_bodies s =
     map (\<lambda>p. (fst p, fst (snd p), body_header (body_info (snd (snd p))),
               infos (body_info (snd (snd p))))) (published s)"


section \<open>Sample data\<close>






definition sample_consts :: AlgoConsts where
  "sample_consts =
     \<lparr>ALGO_FACE = 0, ALGO_BODY = 1, ALGO_GESTURE = 2, ALGO_KEYPOINTS = 3, ALGO_REID = 4,
      ALGO_FOCUS = 5, ENABLE_SUCCESS = 0, DISABLE_SUCCESS = 0\<rparr>"

definition bad_frame :: frame_obs where
  "bad_frame = \<lparr>pose_ret = 7, pose_msg = ''no face'', dup = None\<rparr>"

definition good_frame :: frame_obs where
  "good_frame = \<lparr>pose_ret = 0, pose_msg = ''ok'', dup = None\<rparr>"

definition known_frame :: frame_obs where
  "known_frame = \<lparr>pose_ret = 0, pose_msg = ''ok'', dup = Some ''bob''\<rparr>"

text \<open>
  Schedules.  A request opens body detection, face recognition and gesture
  recognition; a frame arrives; a manager runs the five blocks of one cycle up to its
  test whether to publish.
\<close>

definition open_three :: event where
  "open_three =
     Control sample_consts None
       \<lparr>algo_enable = [\<lparr>algo_module = 1\<rparr>, \<lparr>algo_module = 0\<rparr>, \<lparr>algo_module = 2\<rparr>],
        algo_disable = []\<rparr>"

definition open_two :: event where
  "open_two =
     Control sample_consts None
       \<lparr>algo_enable = [\<lparr>algo_module = 1\<rparr>, \<lparr>algo_module = 2\<rparr>], algo_disable = []\<rparr>"

definition frame1 :: StampedImage where
  "frame1 = \<lparr>header = 1, img = Mat 1\<rparr>"

definition frame2 :: StampedImage where
  "frame2 = \<lparr>header = 2, img = Mat 2\<rparr>"

definition to_gate :: "stage \<Rightarrow> event list" where
  "to_gate st = [Manager st, Manager st, Manager st, Manager st, Manager st]"

definition body_round :: "HumanBodyInfo list \<Rightarrow> event list" where
  "body_round found = [Wake Body, Snapshot Body, Infer Body (Detect (Some found)), Store Body]"

definition hand :: GestureInfo where
  "hand = \<lparr>g_rect = \<lparr>rect_x = 20, rect_y = 30, rect_width = 8, rect_height = 8\<rparr>, label = 3\<rparr>"

definition face_round :: "event list" where
  "face_round = [Wake Face, Snapshot Face, Infer Face (Recognize []), Store Face]"

text \<open>
  In \<open>schedule_shared\<close> the first frame is detected and the gesture worker has
  stored its result, while the face worker, triggered in the same cycle of stage 1,
  has not yet woken.
\<close>

definition schedule_shared :: "event list" where
  "schedule_shared =
     [open_three, NewFrame frame1] @ to_gate Stage1 @ body_round [mk_body 10 10 50 50]
     @ to_gate Stage2 @ [Wake Gesture, Infer Gesture (GestureOut 0 [hand]), Store Gesture]"

text \<open>
  In \<open>schedule_race\<close> the gesture worker works on the detection of frame 1 while
  frame 2 arrives and is detected; the body worker stores the body list of frame 2
  before the gesture worker stores its result, and stage 2 publishes.  The bodies of
  frame 2 are the parameter.
\<close>

definition schedule_race :: "HumanBodyInfo list \<Rightarrow> event list" where
  "schedule_race second =
     [open_two, NewFrame frame1] @ to_gate Stage1 @ body_round [mk_body 10 10 50 50]
     @ to_gate Stage2 @ [Wake Gesture, Infer Gesture (GestureOut 0 [hand])]
     @ [NewFrame frame2] @ to_gate Stage1 @ body_round second
     @ [Store Gesture, Manager Stage2]"

section \<open>Properties of the overlap ratio\<close>

lemma word_max0: "max (x :: 32 word) 0 = x"
  by (simp add: max_def)

lemma GetIOU_contained_quarter: "GetIOU (mk_body 0 0 20 20) (mk_roi 5 5 10 10) = Finite 0.25"
  by (simp add: GetIOU_def mk_body_def mk_roi_def dbl_div_def Let_def)

lemma sint_small:
  fixes x :: "32 word"
  assumes "unat x < 2 ^ 31"
  shows "sint x = int (unat x)"
proof -
  have "int (unat x) < int (2 ^ 31)"
    using assms by (simp only: of_nat_less_iff)
  then have "uint x < 2 ^ 31" by simp
  moreover have "- (2 ^ 31) \<le> uint x"
  proof -
    have "- (2 ^ 31) \<le> (0 :: int)" by simp
    then show ?thesis using uint_nonnegative [of x] by (rule order_trans)
  qed
  ultimately have "signed_take_bit 31 (uint x) = uint x"
    by (intro signed_take_bit_int_eq_self) simp_all
  then show ?thesis by (simp add: sint_uint)
qed

lemma GetIOU_identical:
  assumes "width b * height b \<noteq> 0" "unat (width b * height b) < 2 ^ 31"
  shows "GetIOU b \<lparr>x_offset = left b, y_offset = top b, roi_height = height b, roi_width = width b\<rparr>
      = Finite 1"
proof -
  have s: "sint (width b * height b) = int (unat (width b * height b))"
    using assms(2) by (rule sint_small)
  have "unat (width b * height b) \<noteq> 0" using assms(1) by (simp add: unat_eq_0)
  then have n: "unat (height b * width b) \<noteq> 0" by (simp add: mult.commute)
  have s': "sint (height b * width b) = int (unat (height b * width b))"
    using s by (simp add: mult.commute)
  show ?thesis
    using n assms(1)
    by (simp add: GetIOU_def Let_def word_max0 dbl_div_def s s' mult.commute unsigned_eq_0_iff)
qed

text \<open>
  A region inside another of four times its area, with no sum of coordinates and no
  area beyond 32 bits.
\<close>

lemma GetIOU_contained:
  assumes x: "unat (x_offset b2) \<le> unat (left b1)"
    and xr: "unat (left b1) + unat (width b1) \<le> unat (x_offset b2) + unat (roi_width b2)"
    and xw: "unat (x_offset b2) + unat (roi_width b2) < 2 ^ 32"
    and y: "unat (y_offset b2) \<le> unat (top b1)"
    and yr: "unat (top b1) + unat (height b1) \<le> unat (y_offset b2) + unat (roi_height b2)"
    and yw: "unat (y_offset b2) + unat (roi_height b2) < 2 ^ 32"
    and a1: "0 < unat (width b1) * unat (height b1)"
    and a2: "unat (roi_width b2) * unat (roi_height b2) = 4 * (unat (width b1) * unat (height b1))"
    and small: "unat (roi_width b2) * unat (roi_height b2) < 2 ^ 31"
  shows "GetIOU b1 b2 = Finite (1 / 4)"
proof -
  have l: "unat (left b1 + width b1) = unat (left b1) + unat (width b1)"
    using xr xw by (intro unat_add_lem [THEN iffD1]) simp
  have r: "unat (x_offset b2 + roi_width b2) = unat (x_offset b2) + unat (roi_width b2)"
    using xw by (intro unat_add_lem [THEN iffD1]) simp
  have "left b1 + width b1 \<le> x_offset b2 + roi_width b2"
    using xr by (simp add: word_le_nat_alt l r)
  then have mn: "min (left b1 + width b1) (x_offset b2 + roi_width b2) = left b1 + width b1"
    by (simp add: min_def)
  have "x_offset b2 \<le> left b1" using x by (simp add: word_le_nat_alt)
  then have mx: "max (left b1) (x_offset b2) = left b1" by (simp add: max_def)
  have t: "unat (top b1 + height b1) = unat (top b1) + unat (height b1)"
    using yr yw by (intro unat_add_lem [THEN iffD1]) simp
  have b: "unat (y_offset b2 + roi_height b2) = unat (y_offset b2) + unat (roi_height b2)"
    using yw by (intro unat_add_lem [THEN iffD1]) simp
  have "top b1 + height b1 \<le> y_offset b2 + roi_height b2"
    using yr by (simp add: word_le_nat_alt t b)
  then have mn': "min (top b1 + height b1) (y_offset b2 + roi_height b2) = top b1 + height b1"
    by (simp add: min_def)
  have "y_offset b2 \<le> top b1" using y by (simp add: word_le_nat_alt)
  then have mx': "max (top b1) (y_offset b2) = top b1" by (simp add: max_def)
  have g: "GetIOU b1 b2 =
      dbl_div (sint (width b1 * height b1)) (unat (roi_width b2 * roi_height b2))"
    by (simp add: GetIOU_def Let_def mn mx mn' mx' word_max0)
  have u2: "unat (roi_width b2 * roi_height b2) = unat (roi_width b2) * unat (roi_height b2)"
    using small by (intro unat_mult_lem [THEN iffD1]) simp
  have "4 * (unat (width b1) * unat (height b1)) < 2 ^ 31" using a2 small by (simp only:)
  then have "unat (width b1) * unat (height b1) < 2 ^ 31" by linarith
  then have lt': "unat (width b1) * unat (height b1) < 2 ^ 31" .
  have "(2 :: nat) ^ 31 < 2 ^ 32" by simp
  with lt' have lt: "unat (width b1) * unat (height b1) < 2 ^ 32" by (rule less_trans)
  have u1: "unat (width b1 * height b1) = unat (width b1) * unat (height b1)"
    using lt by (intro unat_mult_lem [THEN iffD1]) simp
  have s1: "sint (width b1 * height b1) = int (unat (width b1) * unat (height b1))"
    using sint_small [of "width b1 * height b1"] lt' by (simp only: u1)
  have q: "dbl_div (int A) (4 * A) = Finite (1 / 4)" if "0 < A" for A :: nat
    using that by (simp add: dbl_div_def)
  have "GetIOU b1 b2 = dbl_div (int (unat (width b1) * unat (height b1)))
      (4 * (unat (width b1) * unat (height b1)))"
    by (simp only: g s1 u2 a2)
  also have "\<dots> = Finite (1 / 4)" using a1 by (rule q)
  finally show ?thesis .
qed

text \<open>
  C3.  \<open>GetIOU\<close> is to return 0 for two regions that do not overlap.  It does not: the
  clipping at zero compares unsigned values, so the width and the height of the
  intersection come out negative.  For two 10 by 10 regions apart on both axes it
  returns 1, and for two apart on one axis it returns -1/3.
\<close>

theorem GetIOU_no_overlap_not_zero:
  "GetIOU (mk_body 0 0 10 10) (mk_roi 20 20 10 10) = Finite 1 \<and>
   GetIOU (mk_body 0 0 10 10) (mk_roi 20 0 10 10) = Finite (- 1 / 3)"
  by (simp add: GetIOU_def mk_body_def mk_roi_def dbl_div_def Let_def)

section \<open>Properties of enabling and disabling\<close>

text \<open>
  C10.  Whatever the request holds, \<open>AlgoManagerService\<close> answers \<open>ENABLE_SUCCESS\<close>
  and \<open>DISABLE_SUCCESS\<close>; and \<open>SetAlgoState\<close> leaves the manager as it is when the
  identifier is none of the six it knows.
\<close>

theorem AlgoManagerService_always_success:
  "result_enable (fst (AlgoManagerService K disk req res vm)) = ENABLE_SUCCESS K \<and>
   result_disable (fst (AlgoManagerService K disk req res vm)) = DISABLE_SUCCESS K \<and>
   (algo_module a \<notin> {ALGO_FACE K, ALGO_BODY K, ALGO_GESTURE K, ALGO_KEYPOINTS K,
                       ALGO_REID K, ALGO_FOCUS K} \<longrightarrow>
      SetAlgoState K disk a val vm = vm)"
  by (simp add: AlgoManagerService_def SetAlgoState_def Let_def)

theorem AlgoManagerService_always_success_witness:
  "result_enable (fst (AlgoManagerService sample_consts None
       \<lparr>algo_enable = [\<lparr>algo_module = 9\<rparr>], algo_disable = []\<rparr>
       \<lparr>result_enable = 1, result_disable = 1\<rparr> vm_init)) = 0 \<and>
   result_disable (fst (AlgoManagerService sample_consts None
       \<lparr>algo_enable = [\<lparr>algo_module = 9\<rparr>], algo_disable = []\<rparr>
       \<lparr>result_enable = 1, result_disable = 1\<rparr> vm_init)) = 0 \<and>
   SetAlgoState sample_consts None \<lparr>algo_module = 9\<rparr> True vm_init = vm_init"
  using AlgoManagerService_always_success
          [of sample_consts None "\<lparr>algo_enable = [\<lparr>algo_module = 9\<rparr>], algo_disable = []\<rparr>"
              "\<lparr>result_enable = 1, result_disable = 1\<rparr>" vm_init "\<lparr>algo_module = 9\<rparr>" True]
  by (simp add: sample_consts_def)

section \<open>Properties of tracking-target resolution\<close>

declare scan.simps [simp del]

lemma first_index_empty: "first_index [] = 2 ^ 64 - 1"
  by (simp add: first_index_def unsigned_minus_1_eq_mask mask_eq_exp_minus_1)














lemma GetMatchBody_empty:
  "body_infos (body_results vm) = [] \<Longrightarrow> GetMatchBody set_rc roi vm = Inl OutOfRange"
  by (simp add: GetMatchBody_def first_index_empty scan.simps)

lemma scan_no_fault: "i < length hist \<Longrightarrow> scan hist dimg roi i acc \<noteq> Inl f"
proof (induction i arbitrary: acc)
  case 0
  show ?case by (cases acc) (simp add: scan.simps)
next
  case (Suc i)
  then have "\<And>acc'. scan hist dimg roi i acc' \<noteq> Inl f" by simp
  then show ?case using Suc.prems
    by (cases acc) (simp add: scan.simps [of hist dimg roi "Suc i"] split: prod.splits)
qed






text \<open>
  C9.  With ReID open and an empty detection history, the first index of the scan is
  \<open>size() - 1\<close> taken in \<open>size_t\<close>, the largest value there is, and the first read
  of the history is outside it.
\<close>

theorem TrackingService_empty_history:
  "TrackingService set_rc focus_ok roi res
     (vm\<lparr>open_reid := True, body_results := (body_results vm)\<lparr>body_infos := []\<rparr>\<rparr>)
   = Inl OutOfRange"
  by (simp add: TrackingService_def GetMatchBody_empty)

section \<open>Properties of face enrollment\<close>

lemma FaceDetProc_loop_refused:
  "\<forall>ef\<in>set efs. refused ef \<Longrightarrow>
   FaceDetProc_loop (map going efs @ ts) name gt evs =
     FaceDetProc_loop ts name (gt \<or> efs \<noteq> []) (evs @ map (refusal name) efs)"
proof (induction efs arbitrary: gt evs)
  case Nil
  then show ?case by simp
next
  case (Cons ef efs)
  then have r: "fst ef < 40" "pose_ret (snd ef) \<noteq> 0" "pose_ret (snd ef) \<noteq> 17"
    by (simp_all add: refused_def)
  have "FaceDetProc_loop (map going (ef # efs) @ ts) name gt evs =
        FaceDetProc_loop (map going efs @ ts) name True (evs @ [refusal name ef])"
    using r by (simp add: going_def refusal_def)
  also have "\<dots> = FaceDetProc_loop ts name (True \<or> efs \<noteq> []) ((evs @ [refusal name ef]) @ map (refusal name) efs)"
    using Cons.prems by (intro Cons.IH) simp
  finally show ?case by simp
qed

text \<open>
  C4, as amended.  After any number of frames whose pose is refused, each published
  with the code of the pose check: when the loop condition fails, by the deadline or
  by the cancel flag, the run ends with the one time-out event if the flag is still
  set when read again, and with no further event if it is not; when a frame passes the
  pose check, the run ends with one event, OK or, if the face is in the library
  already, DUPLICATE.  A request without an identity is answered -1, starts no
  run and publishes nothing.
\<close>

theorem FaceDetProc_outcomes:
  assumes "\<forall>ef\<in>set efs. refused ef"
  shows "(\<not> (elapsed t < 40 \<and> detect t) \<longrightarrow>
            FaceDetProc (map going efs @ t # rest) name final =
              Some (map (refusal name) efs @
                    (if final then [publishFaceResult 3 name ''timeout''] else []))) \<and>
         (elapsed t < 40 \<and> detect t \<and> frame t = Some f \<and> pose_ret f = 0 \<and> dup f = None \<longrightarrow>
            FaceDetProc (map going efs @ t # rest) name final =
              Some (map (refusal name) efs @ [publishFaceResult 0 name (pose_msg f)])) \<and>
         (elapsed t < 40 \<and> detect t \<and> frame t = Some f \<and> pose_ret f = 0 \<and> dup f = Some found \<longrightarrow>
            FaceDetProc (map going efs @ t # rest) name final =
              Some (map (refusal name) efs @
                    [publishFaceResult 17 found ''face already in endlib''])) \<and>
         FaceManagerService_ADD_FACE [] ticks final = (- 1, Some [])"
  using assms
  by (simp add: FaceDetProc_def FaceDetProc_loop_refused FaceManagerService_ADD_FACE_def)

theorem FaceDetProc_outcomes_witness:
  "FaceDetProc [going (1, bad_frame), going (20, bad_frame),
                \<lparr>elapsed = 40, detect = True, frame = None\<rparr>] ''ann'' True =
     Some [publishFaceResult 7 ''ann'' ''no face'', publishFaceResult 7 ''ann'' ''no face'',
           publishFaceResult 3 ''ann'' ''timeout''] \<and>
   FaceDetProc [going (1, bad_frame), going (20, bad_frame),
                \<lparr>elapsed = 21, detect = True, frame = Some good_frame\<rparr>] ''ann'' True =
     Some [publishFaceResult 7 ''ann'' ''no face'', publishFaceResult 7 ''ann'' ''no face'',
           publishFaceResult 0 ''ann'' ''ok''] \<and>
   FaceDetProc [going (1, bad_frame), going (20, bad_frame),
                \<lparr>elapsed = 21, detect = True, frame = Some known_frame\<rparr>] ''ann'' True =
     Some [publishFaceResult 7 ''ann'' ''no face'', publishFaceResult 7 ''ann'' ''no face'',
           publishFaceResult 17 ''bob'' ''face already in endlib'']"
proof -
  have r: "\<forall>ef\<in>set [(1, bad_frame), (20, bad_frame)]. refused ef"
    by (simp add: refused_def bad_frame_def)
  show ?thesis
    using FaceDetProc_outcomes [OF r, where t = "\<lparr>elapsed = 40, detect = True, frame = None\<rparr>"
        and rest = "[]" and name = "''ann''" and final = True]
      FaceDetProc_outcomes [OF r,
        where t = "\<lparr>elapsed = 21, detect = True, frame = Some good_frame\<rparr>"
        and f = good_frame and rest = "[]" and name = "''ann''" and final = True]
      FaceDetProc_outcomes [OF r,
        where t = "\<lparr>elapsed = 21, detect = True, frame = Some known_frame\<rparr>"
        and f = known_frame and rest = "[]" and name = "''ann''" and final = True
        and found = "''bob''"]
    by (simp add: refusal_def bad_frame_def good_frame_def known_frame_def)
qed

text \<open>
  The claim as stated fails: a run that is cancelled after one refused frame publishes
  that frame's event and no terminal event, and a request without an identity
  publishes nothing.
\<close>

theorem FaceDetProc_cancel_counterexample:
  "FaceDetProc [going (1, bad_frame), \<lparr>elapsed = 2, detect = False, frame = None\<rparr>] ''ann'' False
     = Some [publishFaceResult 7 ''ann'' ''no face''] \<and>
   FaceManagerService_ADD_FACE [] [] True = (- 1, Some [])"
  by (simp add: FaceDetProc_def going_def bad_frame_def FaceManagerService_ADD_FACE_def)

section \<open>Properties of activation and deactivation\<close>







section \<open>Properties of the scheduler\<close>

text \<open>What a step leaves alone.\<close>

lemma SetAlgoState_sched [simp]:
  "is_called (SetAlgoState K disk a v vm) = is_called vm"
  "process_num (SetAlgoState K disk a v vm) = process_num vm"
  "is_activate (SetAlgoState K disk a v vm) = is_activate vm"
  by (simp_all add: SetAlgoState_def LoadFaceLibrary_def split: option.splits)

lemma fold_SetAlgoState_sched [simp]:
  "is_called (fold (\<lambda>a. SetAlgoState K disk a v) as vm) = is_called vm"
  "process_num (fold (\<lambda>a. SetAlgoState K disk a v) as vm) = process_num vm"
  "is_activate (fold (\<lambda>a. SetAlgoState K disk a v) as vm) = is_activate vm"
  by (induction as arbitrary: vm) simp_all

lemma AlgoManagerService_sched [simp]:
  "is_called (snd (AlgoManagerService K disk req res vm)) = is_called vm"
  "process_num (snd (AlgoManagerService K disk req res vm)) = process_num vm"
  "is_activate (snd (AlgoManagerService K disk req res vm)) = is_activate vm"
  by (simp_all add: AlgoManagerService_def Let_def)

lemma unfill_sched [simp]:
  "is_called (unfill st vm) = is_called vm"
  "process_num (unfill st vm) = process_num vm"
  "is_activate (unfill st vm) = is_activate vm"
  by (cases st; simp)+

lemma lost_status_sched [simp]:
  "is_called (lost_status l vm) = is_called vm"
  "process_num (lost_status l vm) = process_num vm"
  "is_activate (lost_status l vm) = is_activate vm"
  by (simp_all add: lost_status_def)

lemma trigger_sched:
  "is_activate (trigger w vm) = is_activate vm"
  "is_called (trigger w vm) = (if is_open w vm \<and> \<not> is_called vm w then (is_called vm)(w := True) else is_called vm)"
  "process_num (trigger w vm) = (if is_open w vm \<and> \<not> is_called vm w then process_num vm + 1 else process_num vm)"
  by (simp_all add: trigger_def)

lemma store_block_sched:
  "store_block c vm = Inr vm' \<Longrightarrow>
   is_called vm' = is_called vm \<and> process_num vm' = process_num vm - 1 \<and>
   is_activate vm' = is_activate vm"
  by (auto simp: store_block_def split: sum.splits)

text \<open>What each kind of step does to the flags, the counter and the workers.\<close>

lemma wake_step_sched:
  assumes "wake_step w s = Next s'"
  shows "worker_pc s w = W_Wait \<and> is_called (mgr s) w \<and>
     is_activate (mgr s') = is_activate (mgr s) \<and>
     is_called (mgr s') = (is_called (mgr s))(w := False) \<and>
     process_num (mgr s') = process_num (mgr s) \<and>
     worker_pc s' = (worker_pc s)(w := if is_activate (mgr s) then W_Woken else W_Exit)"
  using assms by (auto simp: wake_step_def split: if_splits)

lemma snapshot_step_sched:
  assumes "snapshot_step w s = Next s'"
  shows "worker_pc s w = W_Woken \<and> mgr s' = mgr s \<and>
     (\<exists>i. worker_pc s' = (worker_pc s)(w := W_Image i))"
  using assms by (auto simp: snapshot_step_def split: if_splits)

lemma store_step_sched:
  assumes "store_step w s = Next s'"
  shows "(\<exists>c. worker_pc s w = W_Done c) \<and> worker_pc s' = (worker_pc s)(w := W_Wait) \<and>
     is_called (mgr s') = is_called (mgr s) \<and>
     process_num (mgr s') = process_num (mgr s) - 1 \<and>
     is_activate (mgr s') = is_activate (mgr s)"
  using assms
  by (auto simp: store_step_def split: wpc.splits sum.splits dest: store_block_sched)

lemma infer_step_sched:
  assumes "infer_step w (worker_pc s w) out s = Next s'"
  shows "worker_pc s w \<noteq> W_Wait \<and> (\<exists>c. worker_pc s' = (worker_pc s)(w := W_Done c)) \<and>
     is_called (mgr s') = is_called (mgr s) \<and>
     process_num (mgr s') = process_num (mgr s) \<and>
     is_activate (mgr s') = is_activate (mgr s)"
proof (cases w)
  case Body
  with assms show ?thesis
    by (auto simp: infer_step_def split: wpc.splits engine_out.splits option.splits)
next
  case Face
  with assms show ?thesis
    by (auto simp: infer_step_def split: wpc.splits engine_out.splits)
next
  case Focus
  with assms show ?thesis
    by (auto simp: infer_step_def split: wpc.splits engine_out.splits)
next
  case ReID
  with assms show ?thesis
    by (auto simp: infer_step_def split: wpc.splits engine_out.splits if_splits)
next
  case Gesture
  with assms show ?thesis
    by (auto simp: infer_step_def split: wpc.splits engine_out.splits if_splits)
next
  case Keypoints
  with assms show ?thesis
    by (auto simp: infer_step_def split: wpc.splits engine_out.splits if_splits)
qed

lemma manager_step_flags:
  assumes "manager_step st s = Next s'"
  shows "worker_pc s' = worker_pc s \<and> is_activate (mgr s') = is_activate (mgr s) \<and>
     ((is_called (mgr s') = is_called (mgr s) \<and> process_num (mgr s') = process_num (mgr s)) \<or>
      (\<exists>w. manager_pc s st = M_Trigger w \<and> \<not> is_called (mgr s) w \<and>
           is_called (mgr s') = (is_called (mgr s))(w := True) \<and>
           process_num (mgr s') = process_num (mgr s) + 1))"
proof (cases "manager_pc s st")
  case M_Wait
  with assms show ?thesis by (auto simp: manager_step_def split: if_splits)
next
  case (M_Trigger w)
  with assms have s': "worker_pc s' = worker_pc s" "mgr s' = trigger w (mgr s)"
    by (auto simp: manager_step_def)
  then have a: "is_activate (mgr s') = is_activate (mgr s)" by (simp add: trigger_sched)
  show ?thesis
  proof (cases "is_open w (mgr s) \<and> \<not> is_called (mgr s) w")
    case True
    then have "manager_pc s st = M_Trigger w \<and> \<not> is_called (mgr s) w \<and>
           is_called (mgr s') = (is_called (mgr s))(w := True) \<and>
           process_num (mgr s') = process_num (mgr s) + 1"
      by (simp add: s' trigger_sched M_Trigger)
    then show ?thesis using s' a by blast
  next
    case False
    then show ?thesis using s' by (auto simp: trigger_sched)
  qed
next
  case M_Gate
  with assms show ?thesis by (auto simp: manager_step_def)
next
  case M_Publish
  with assms show ?thesis by (auto simp: manager_step_def split: if_splits)
next
  case M_Exit
  with assms show ?thesis by (simp add: manager_step_def)
qed


lemma step_flags:
  assumes st: "step e s = Next s'"
  shows "(is_called (mgr s') = is_called (mgr s) \<and> process_num (mgr s') = process_num (mgr s) \<and>
          worker_pc s' = worker_pc s) \<or>
         (\<exists>stg w. e = Manager stg \<and> manager_pc s stg = M_Trigger w \<and> \<not> is_called (mgr s) w \<and>
            is_called (mgr s') = (is_called (mgr s))(w := True) \<and>
            process_num (mgr s') = process_num (mgr s) + 1 \<and> worker_pc s' = worker_pc s) \<or>
         (\<exists>w x. e = Wake w \<and> worker_pc s w = W_Wait \<and> is_called (mgr s) w \<and>
            is_called (mgr s') = (is_called (mgr s))(w := False) \<and>
            process_num (mgr s') = process_num (mgr s) \<and>
            worker_pc s' = (worker_pc s)(w := x) \<and> x \<noteq> W_Wait) \<or>
         (\<exists>w x. (e = Snapshot w \<or> (\<exists>out. e = Infer w out)) \<and> worker_pc s w \<noteq> W_Wait \<and>
            is_called (mgr s') = is_called (mgr s) \<and>
            process_num (mgr s') = process_num (mgr s) \<and>
            worker_pc s' = (worker_pc s)(w := x) \<and> x \<noteq> W_Wait) \<or>
         (\<exists>w. e = Store w \<and> worker_pc s w \<noteq> W_Wait \<and>
            is_called (mgr s') = is_called (mgr s) \<and>
            process_num (mgr s') = process_num (mgr s) - 1 \<and>
            worker_pc s' = (worker_pc s)(w := W_Wait))"
proof (cases e)
  case (NewFrame simg)
  with st show ?thesis by (auto split: if_splits)
next
  case (Control K disk req)
  with st show ?thesis by auto
next
  case (Manager stg)
  with st have m: "manager_step stg s = Next s'" by simp
  from manager_step_flags [OF m] Manager show ?thesis by blast
next
  case (Wake w)
  with st have m: "wake_step w s = Next s'" by simp
  from wake_step_sched [OF m] have
    "e = Wake w \<and> worker_pc s w = W_Wait \<and> is_called (mgr s) w \<and>
            is_called (mgr s') = (is_called (mgr s))(w := False) \<and>
            process_num (mgr s') = process_num (mgr s) \<and>
            worker_pc s' = (worker_pc s)(w := if is_activate (mgr s) then W_Woken else W_Exit) \<and>
            (if is_activate (mgr s) then W_Woken else W_Exit) \<noteq> W_Wait"
    using Wake by simp
  then show ?thesis by blast
next
  case (Snapshot w)
  with st have m: "snapshot_step w s = Next s'" by simp
  from snapshot_step_sched [OF m] obtain i where
    "e = Snapshot w \<and> worker_pc s w \<noteq> W_Wait \<and>
            is_called (mgr s') = is_called (mgr s) \<and>
            process_num (mgr s') = process_num (mgr s) \<and>
            worker_pc s' = (worker_pc s)(w := W_Image i) \<and> W_Image i \<noteq> W_Wait"
    using Snapshot by auto
  then show ?thesis by blast
next
  case (Infer w out)
  with st have m: "infer_step w (worker_pc s w) out s = Next s'" by simp
  from infer_step_sched [OF m] obtain c where
    "(\<exists>out. e = Infer w out) \<and> worker_pc s w \<noteq> W_Wait \<and>
            is_called (mgr s') = is_called (mgr s) \<and>
            process_num (mgr s') = process_num (mgr s) \<and>
            worker_pc s' = (worker_pc s)(w := W_Done c) \<and> W_Done c \<noteq> W_Wait"
    using Infer by auto
  then show ?thesis by blast
next
  case (Store w)
  with st have m: "store_step w s = Next s'" by simp
  from store_step_sched [OF m] have
    "e = Store w \<and> worker_pc s w \<noteq> W_Wait \<and>
            is_called (mgr s') = is_called (mgr s) \<and>
            process_num (mgr s') = process_num (mgr s) - 1 \<and>
            worker_pc s' = (worker_pc s)(w := W_Wait)"
    using Store by auto
  then show ?thesis by blast
qed

lemma flag_rise:
  assumes "step e s = Next s'" "\<not> is_called (mgr s) w" "is_called (mgr s') w"
  shows "(\<exists>st. e = Manager st \<and> manager_pc s st = M_Trigger w) \<and>
         process_num (mgr s') = process_num (mgr s) + 1"
  using step_flags [OF assms(1)] assms(2,3)
  by (elim disjE exE conjE) (auto split: if_splits)

lemma flag_fall:
  assumes "step e s = Next s'" "is_called (mgr s) w" "\<not> is_called (mgr s') w"
  shows "e = Wake w"
  using step_flags [OF assms(1)] assms(2,3)
  by (elim disjE exE conjE) (auto split: if_splits)

lemma leave_wait:
  assumes "step e s = Next s'" "worker_pc s w = W_Wait" "worker_pc s' w \<noteq> W_Wait"
  shows "e = Wake w \<and> is_called (mgr s) w"
  using step_flags [OF assms(1)] assms(2,3)
  by (elim disjE exE conjE) (auto split: if_splits)

lemma back_to_wait:
  assumes "step e s = Next s'" "worker_pc s w \<noteq> W_Wait" "worker_pc s' w = W_Wait"
  shows "e = Store w"
  using step_flags [OF assms(1)] assms(2,3)
  by (elim disjE exE conjE) (auto split: if_splits)


text \<open>
  C7.  The block a manager runs for a worker changes nothing when the worker's flag is
  set, and sets the flag and adds one to the counter when the flag is clear and the
  algorithm open.  In the running system a flag goes up only in such a block of that
  worker, together with the counter, and goes down only when the worker itself wakes:
  between two settings of a flag the worker has consumed it.  A worker leaves its wait
  only by waking on its flag and comes back to it only through its store block, so it
  never starts an invocation inside another.
\<close>

theorem trigger_only_when_clear:
  "(is_called vm w \<longrightarrow> trigger w vm = vm) \<and>
   (\<not> is_called vm w \<and> is_open w vm \<longrightarrow>
      trigger w vm = vm\<lparr>process_num := process_num vm + 1,
                        is_called := (is_called vm)(w := True)\<rparr>) \<and>
   (step e s = Next s' \<and> \<not> is_called (mgr s) w \<and> is_called (mgr s') w \<longrightarrow>
      (\<exists>st. e = Manager st \<and> manager_pc s st = M_Trigger w) \<and>
      process_num (mgr s') = process_num (mgr s) + 1) \<and>
   (step e s = Next s' \<and> is_called (mgr s) w \<and> \<not> is_called (mgr s') w \<longrightarrow> e = Wake w) \<and>
   (step e s = Next s' \<and> worker_pc s w = W_Wait \<and> worker_pc s' w \<noteq> W_Wait \<longrightarrow>
      e = Wake w \<and> is_called (mgr s) w) \<and>
   (step e s = Next s' \<and> worker_pc s w \<noteq> W_Wait \<and> worker_pc s' w = W_Wait \<longrightarrow> e = Store w)"
proof -
  have 1: "is_called vm w \<longrightarrow> trigger w vm = vm" by (simp add: trigger_def)
  have 2: "\<not> is_called vm w \<and> is_open w vm \<longrightarrow>
      trigger w vm = vm\<lparr>process_num := process_num vm + 1,
                        is_called := (is_called vm)(w := True)\<rparr>"
    by (simp add: trigger_def)
  from 1 2 flag_rise [of e s s' w] flag_fall [of e s s' w] leave_wait [of e s s' w]
    back_to_wait [of e s s' w]
  show ?thesis by blast
qed

lemmas run_defs =
  sys_init_def on_activate_def CallService_def vm_init_def manager_step_def
  AlgoManagerService_def SetAlgoState_def sample_consts_def LoadFaceLibrary_def
  first_worker_def trigger_def wake_step_def snapshot_step_def infer_step_def
  store_step_def store_block_def BodyDet_store_def Let_def frame1_def frame2_def
  Convert_body_def to_gate_def body_round_def open_three_def open_two_def

lemma run_append: "run (es @ es') s = (case run es s of Next s' \<Rightarrow> run es' s' | Blocked \<Rightarrow> Blocked | Fault \<Rightarrow> Fault)"
  by (induction es arbitrary: s) (auto split: outcome.splits)

lemma run_then: "run es s = Next s' \<Longrightarrow> run (es @ es') s = run es' s'"
  by (simp add: run_append)

lemma skip_eval:
  "\<exists>s. run ([open_two, NewFrame frame1] @ to_gate Stage1 @ [NewFrame frame2, Manager Stage1])
          sys_init = Next s \<and>
       manager_pc s Stage1 = M_Trigger Body \<and> is_called (mgr s) Body \<and> process_num (mgr s) = 1
       \<and> is_open Body (mgr s)"
  by (simp add: run_defs)

theorem trigger_only_when_clear_witness:
  "observe counter
     (run ([open_two, NewFrame frame1] @ to_gate Stage1 @ [NewFrame frame2, Manager Stage1]
           @ [Manager Stage1]) sys_init) = Some 1"
proof -
  from skip_eval obtain s where s:
    "run ([open_two, NewFrame frame1] @ to_gate Stage1 @ [NewFrame frame2, Manager Stage1])
          sys_init = Next s"
    "manager_pc s Stage1 = M_Trigger Body" "is_called (mgr s) Body" "process_num (mgr s) = 1"
    by blast
  from trigger_only_when_clear [of "mgr s" Body] s(3)
  have "trigger Body (mgr s) = mgr s" by blast
  then have "step (Manager Stage1) s =
      Next (s\<lparr>mgr := mgr s, manager_pc := (manager_pc s)(Stage1 := M_Trigger Face)\<rparr>)"
    using s(2) by (simp add: manager_step_def)
  then have "run (([open_two, NewFrame frame1] @ to_gate Stage1
                  @ [NewFrame frame2, Manager Stage1]) @ [Manager Stage1]) sys_init =
      Next (s\<lparr>mgr := mgr s, manager_pc := (manager_pc s)(Stage1 := M_Trigger Face)\<rparr>)"
    using run_then [OF s(1), of "[Manager Stage1]"] by simp
  then show ?thesis using s(4) by (simp add: observe_def counter_def)
qed





lemma run_invariant:
  assumes step: "\<And>e s s'. P s \<Longrightarrow> step e s = Next s' \<Longrightarrow> P s'"
  shows "P s \<Longrightarrow> run es s = Next s' \<Longrightarrow> P s'"
proof (induction es arbitrary: s)
  case Nil
  then show ?case by simp
next
  case (Cons e es)
  then show ?case
    by (cases "step e s") (auto intro: step)
qed















text \<open>
  C6.  The gesture entries of a published report are to describe the bodies of the
  same cycle.  In \<open>schedule_race\<close> the report published carries the body list of
  frame 2 with the gesture found on the body of frame 1; and when frame 2 shows
  nobody, the gesture worker writes its entry into an empty body list, outside its
  bounds.
\<close>

theorem gesture_race_misaligned:
  "observe published_bodies (run (schedule_race [mk_body 200 100 40 80]) sys_init) =
     Some [(Stage2, 1, 2,
            [BodyT0\<lparr>body_roi := \<lparr>x_offset = 200, y_offset = 100, roi_height = 80, roi_width = 40\<rparr>,
                    gesture := \<lparr>gesture_roi = Convert_rect (g_rect hand), cls = 3\<rparr>\<rparr>])] \<and>
   run (schedule_race []) sys_init = Fault"
  by (simp add: schedule_race_def run_defs observe_def published_bodies_def mk_body_def hand_def)

section \<open>Properties of the ReID annotation\<close>

lemma Convert_gesture_reid:
  "Convert_gesture gs i to = Inr to' \<Longrightarrow> \<forall>b\<in>set (infos to). reid b = [] \<Longrightarrow>
   \<forall>b\<in>set (infos to'). reid b = []"
proof (induction gs arbitrary: i to)
  case Nil
  then show ?case by simp
next
  case (Cons g gs)
  from Cons.prems(1) have i: "i < length (infos to)" by (simp split: if_splits)
  let ?to = "to\<lparr>infos := (infos to)[i := (infos to ! i)\<lparr>gesture :=
                   \<lparr>gesture_roi = Convert_rect (g_rect g), cls = label g\<rparr>\<rparr>]\<rparr>"
  have "\<forall>b\<in>set (infos ?to). reid b = []"
  proof
    fix b assume "b \<in> set (infos ?to)"
    then have "b \<in> insert ((infos to ! i)\<lparr>gesture :=
                   \<lparr>gesture_roi = Convert_rect (g_rect g), cls = label g\<rparr>\<rparr>) (set (infos to))"
      using set_update_subset_insert by fastforce
    then show "reid b = []" using Cons.prems(2) i by auto
  qed
  moreover have "Convert_gesture gs (Suc i) ?to = Inr to'" using Cons.prems(1) i by simp
  ultimately show ?case by (rule Cons.IH [rotated])
qed

lemma Convert_keypoints_reid:
  "Convert_keypoints pss i to = Inr to' \<Longrightarrow> \<forall>b\<in>set (infos to). reid b = [] \<Longrightarrow>
   \<forall>b\<in>set (infos to'). reid b = []"
proof (induction pss arbitrary: i to)
  case Nil
  then show ?case by simp
next
  case (Cons ps pss)
  from Cons.prems(1) have i: "i < length (infos to)" by (simp split: if_splits)
  let ?x = "(infos to ! i)\<lparr>keypoints :=
                   resize (keypoints (infos to ! i)) (17 * 8) \<lparr>kp_x = 0, kp_y = 0\<rparr>
                   @ map (\<lambda>p. \<lparr>kp_x = pt_x p, kp_y = pt_y p\<rparr>) ps\<rparr>"
  let ?to = "to\<lparr>infos := (infos to)[i := ?x]\<rparr>"
  have "\<forall>b\<in>set (infos ?to). reid b = []"
  proof
    fix b assume "b \<in> set (infos ?to)"
    then have "b \<in> insert ?x (set (infos to))"
      using set_update_subset_insert by fastforce
    then show "reid b = []" using Cons.prems(2) i by auto
  qed
  moreover have "Convert_keypoints pss (Suc i) ?to = Inr to'" using Cons.prems(1) i by simp
  ultimately show ?case by (rule Cons.IH [rotated])
qed

lemma write_result_reid:
  assumes "write_result c r = Inr r'" "no_reid r"
  shows "no_reid r'"
proof (cases c)
  case (C_Body h found)
  with assms show ?thesis by (auto simp: no_reid_def Convert_body_def BodyT0_def)
next
  case (C_Face h faces)
  with assms show ?thesis by (auto simp: no_reid_def)
next
  case (C_Focus h ok t)
  with assms show ?thesis by (auto simp: no_reid_def split: if_splits)
next
  case (C_ReID pid bbox)
  with assms show ?thesis
    by (auto simp: no_reid_def AddReid_def split: if_splits sum.splits)
next
  case (C_Gesture ok gs)
  with assms show ?thesis
    by (auto simp: no_reid_def split: if_splits sum.splits dest: Convert_gesture_reid)
next
  case (C_Keypoints pss)
  with assms show ?thesis
    by (auto simp: no_reid_def split: sum.splits dest: Convert_keypoints_reid)
qed

lemma SetAlgoState_result [simp]:
  "algo_result (SetAlgoState K disk a v vm) = algo_result vm"
  by (simp add: SetAlgoState_def LoadFaceLibrary_def split: option.splits)

lemma fold_SetAlgoState_result [simp]:
  "algo_result (fold (\<lambda>a. SetAlgoState K disk a v) as vm) = algo_result vm"
  by (induction as arbitrary: vm) simp_all

lemma AlgoManagerService_result [simp]:
  "algo_result (snd (AlgoManagerService K disk req res vm)) = algo_result vm"
  by (simp add: AlgoManagerService_def Let_def)

lemma misc_result [simp]:
  "algo_result (unfill st vm) = algo_result vm"
  "algo_result (lost_status l vm) = algo_result vm"
  "algo_result (trigger w vm) = algo_result vm"
  by (cases st; simp add: lost_status_def trigger_def)+

lemma reid_free_step:
  assumes ok: "reid_free s" and st: "step e s = Next s'"
  shows "reid_free s'"
proof (cases e)
  case (NewFrame simg)
  with st ok show ?thesis by (auto simp: reid_free_def split: if_splits)
next
  case (Control K disk req)
  with st ok show ?thesis by (auto simp: reid_free_def)
next
  case (Manager stg)
  with st have m: "manager_step stg s = Next s'" by simp
  show ?thesis
  proof (cases "manager_pc s stg")
    case M_Wait
    with m ok show ?thesis by (auto simp: manager_step_def reid_free_def split: if_splits)
  next
    case (M_Trigger w)
    with m ok show ?thesis by (auto simp: manager_step_def reid_free_def)
  next
    case M_Gate
    with m ok show ?thesis by (auto simp: manager_step_def reid_free_def)
  next
    case M_Publish
    with m ok show ?thesis
      by (auto simp: manager_step_def reid_free_def no_reid_def PersonInfoT0_def split: if_splits)
  next
    case M_Exit
    with m show ?thesis by (simp add: manager_step_def)
  qed
next
  case (Wake w)
  with st ok show ?thesis by (auto simp: wake_step_def reid_free_def split: if_splits)
next
  case (Snapshot w)
  with st ok show ?thesis by (auto simp: snapshot_step_def reid_free_def split: if_splits)
next
  case (Infer w out)
  with st have m: "infer_step w (worker_pc s w) out s = Next s'" by simp
  have "algo_result (mgr s') = algo_result (mgr s) \<and> published s' = published s"
  proof (cases w)
    case Body
    with m show ?thesis
      by (auto simp: infer_step_def split: wpc.splits engine_out.splits option.splits)
  next
    case Face
    with m show ?thesis
      by (auto simp: infer_step_def split: wpc.splits engine_out.splits)
  next
    case Focus
    with m show ?thesis
      by (auto simp: infer_step_def split: wpc.splits engine_out.splits)
  next
    case ReID
    with m show ?thesis
      by (auto simp: infer_step_def split: wpc.splits engine_out.splits if_splits)
  next
    case Gesture
    with m show ?thesis
      by (auto simp: infer_step_def split: wpc.splits engine_out.splits if_splits)
  next
    case Keypoints
    with m show ?thesis
      by (auto simp: infer_step_def split: wpc.splits engine_out.splits if_splits)
  qed
  with ok show ?thesis by (simp add: reid_free_def)
next
  case (Store w)
  with st have m: "store_step w s = Next s'" by simp
  then obtain c r where "write_result c (algo_result (mgr s)) = Inr r"
    "algo_result (mgr s') = r" "published s' = published s"
    by (auto simp: store_step_def store_block_def split: wpc.splits sum.splits)
  with ok write_result_reid show ?thesis by (auto simp: reid_free_def)
qed

lemma reid_free_init: "reid_free sys_init"
  by (simp add: reid_free_def no_reid_def sys_init_def on_activate_def CallService_def
      vm_init_def PersonInfoT0_def)

lemma reid_free_run: "run es sys_init = Next s \<Longrightarrow> reid_free s"
  by (rule run_invariant [where P = reid_free, OF reid_free_step reid_free_init])

text \<open>
  C8.  \<open>AddReid\<close> returns the body list as it found it whenever the list is not empty;
  only on an empty list does it go on to the write, which is then at index 0 of that
  empty list, outside its bounds.  So no detection of a published report carries the
  annotation.
\<close>

theorem AddReid_writes_only_when_empty:
  "(infos b \<noteq> [] \<longrightarrow> AddReid b pid tracked = Inr b) \<and>
   (infos b = [] \<longrightarrow> AddReid b pid tracked = Inl OutOfRange) \<and>
   (run es sys_init = Next s \<longrightarrow> unannotated s)"
  using reid_free_run [of es s] by (auto simp: AddReid_def reid_free_def no_reid_def unannotated_def)

lemma published_eval:
  "\<exists>s. run (schedule_shared @ face_round @ [Manager Stage2]) sys_init = Next s"
  by (simp add: schedule_shared_def face_round_def run_defs)

theorem AddReid_writes_only_when_empty_witness:
  "AddReid \<lparr>body_header = 1, body_count = 1, infos = [BodyT0]\<rparr> 7 Rect0
     = Inr \<lparr>body_header = 1, body_count = 1, infos = [BodyT0]\<rparr> \<and>
   AddReid \<lparr>body_header = 1, body_count = 0, infos = []\<rparr> 7 Rect0 = Inl OutOfRange \<and>
   observe unannotated (run (schedule_shared @ face_round @ [Manager Stage2]) sys_init)
     = Some True"
proof -
  from published_eval obtain s where
    s: "run (schedule_shared @ face_round @ [Manager Stage2]) sys_init = Next s" by blast
  from AddReid_writes_only_when_empty
         [of "\<lparr>body_header = 1, body_count = 0, infos = []\<rparr>" 7 Rect0
             "schedule_shared @ face_round @ [Manager Stage2]" s] s
  have "unannotated s" "AddReid \<lparr>body_header = 1, body_count = 0, infos = []\<rparr> 7 Rect0
      = Inl OutOfRange"
    by simp_all
  moreover from AddReid_writes_only_when_empty
         [of "\<lparr>body_header = 1, body_count = 1, infos = [BodyT0]\<rparr>" 7 Rect0]
  have "AddReid \<lparr>body_header = 1, body_count = 1, infos = [BodyT0]\<rparr> 7 Rect0
     = Inr \<lparr>body_header = 1, body_count = 1, infos = [BodyT0]\<rparr>"
    by simp
  ultimately show ?thesis using s by (simp add: observe_def)
qed


end
